theory Spec2Isabelle
  imports Main "HOL-Library.Word"
begin

section \<open>Data model of the local discovery UI handler\<close>

text \<open>
  The development embeds \<^verbatim>\<open>LocalDiscoveryUIHandler\<close> (the registration coordinator of
  \<^verbatim>\<open>chrome/browser/ui/webui/local_discovery/local_discovery_ui_handler.cc\<close>).
  Member names lose their trailing underscore (\<^verbatim>\<open>is_visible_\<close> is \<open>is_visible\<close>).
  The handler mutates itself and talks to its collaborators through calls; the model passes
  the handler as a value and appends every outgoing call to the field \<open>calls\<close>, oldest first.
  \<^verbatim>\<open>DCHECK\<close> and \<^verbatim>\<open>DLOG\<close> are compiled out of release builds and are not modelled.
\<close>

subsection \<open>\<^verbatim>\<open>base::Value\<close>\<close>

datatype Value =
    NullValue
  | BooleanValue bool
  | IntegerValue int
  | StringValue string
  | ListValue "Value list"
  | DictionaryValue "(string \<times> Value) list"

text \<open>\<^verbatim>\<open>DictionaryValue::Set*\<close>: a key is stored once; setting it again replaces its value.\<close>

fun dict_set :: "string \<Rightarrow> Value \<Rightarrow> (string \<times> Value) list \<Rightarrow> (string \<times> Value) list" where
  "dict_set k v [] = [(k, v)]"
| "dict_set k v ((k', v') # kvs) =
     (if k' = k then (k, v) # kvs else (k', v') # dict_set k v kvs)"

text \<open>\<^verbatim>\<open>ListValue::GetString\<close>, \<^verbatim>\<open>GetInteger\<close>, \<^verbatim>\<open>GetBoolean\<close>: the out parameter is written
  only when the index exists and the value has the asked type; \<open>None\<close> is the return
  value \<^verbatim>\<open>false\<close>.\<close>

fun GetString :: "Value list \<Rightarrow> nat \<Rightarrow> string option" where
  "GetString args i =
     (if i < length args then (case args ! i of StringValue s \<Rightarrow> Some s | _ \<Rightarrow> None) else None)"

fun GetInteger :: "Value list \<Rightarrow> nat \<Rightarrow> int option" where
  "GetInteger args i =
     (if i < length args then (case args ! i of IntegerValue n \<Rightarrow> Some n | _ \<Rightarrow> None) else None)"

fun GetBoolean :: "Value list \<Rightarrow> nat \<Rightarrow> bool option" where
  "GetBoolean args i =
     (if i < length args then (case args ! i of BooleanValue b \<Rightarrow> Some b | _ \<Rightarrow> None) else None)"

subsection \<open>Device descriptions\<close>

record HostPortPair =
  host :: string
  port :: "16 word"

text \<open>Modelled from the spec: the declaration of \<^verbatim>\<open>DeviceDescription\<close> is not among the
  sources; the record has the members the handler reads (\<^verbatim>\<open>address\<close>, \<^verbatim>\<open>ip_address\<close>,
  \<^verbatim>\<open>url\<close>, \<^verbatim>\<open>id\<close>), which are the spec's address, ip, baseUrl and id. The member \<^verbatim>\<open>id\<close>
  is \<open>device_id\<close> here.\<close>

record DeviceDescription =
  address :: HostPortPair
  ip_address :: "8 word list"
  url :: string
  device_id :: string

text \<open>The value-initialised description that \<^verbatim>\<open>std::map::operator[]\<close> inserts for a
  missing key.\<close>

definition default_DeviceDescription :: DeviceDescription where
  "default_DeviceDescription =
     \<lparr>address = \<lparr>host = [], port = 0\<rparr>, ip_address = [], url = [], device_id = []\<rparr>"

datatype GURL = GURL string

subsection \<open>Collaborators and the calls made to them\<close>

record Profile =
  request_context :: nat
  signin_manager :: "string option"   \<comment> \<open>\<open>None\<close>: no manager; else the authenticated username\<close>
  token_service :: "nat option"       \<comment> \<open>\<open>None\<close>: \<^verbatim>\<open>GetForProfile\<close> returned \<^verbatim>\<open>NULL\<close>\<close>

datatype PrivetHTTPClient = PrivetHTTPClient (GetName: string)

datatype resolution_callback = StartInfoHTTP_cb | StartRegisterHTTP_cb string

datatype PrivetHTTPResolution =
  CreatePrivetHTTP string HostPortPair resolution_callback

datatype accounts_callback =
    OnCloudPrintAccountsResolved_cb
  | OnXSRFTokenForSecondaryAccount_cb GURL

datatype CloudPrintAccountManager =
  CloudPrintAccountManager nat string int accounts_callback
  \<comment> \<open>request context, cloud print base URL, user index, completion callback\<close>

datatype PrivetConfirmApiCallFlow =
    TokenConfirmFlow nat nat GURL          \<comment> \<open>request context, token service, claim URL\<close>
  | CookieConfirmFlow nat int string GURL  \<comment> \<open>request context, user index, XSRF token, claim URL\<close>

datatype call =
    CallJavascriptFunction string "Value list"
  | LOG_ERROR string
  | ServiceDiscovery_GetClient
  | ServiceDiscovery_ReleaseClient
  | Lister_Start
  | Lister_DiscoverNewDevices bool
  | Resolution_Start PrivetHTTPResolution
  | RegisterOperation_Start string
  | RegisterOperation_CompleteRegistration
  | InfoOperation_Start
  | AccountManager_Start CloudPrintAccountManager
  | ConfirmFlow_Start PrivetConfirmApiCallFlow

subsection \<open>The handler\<close>

record Handler =
  is_visible :: bool
  privet_lister :: bool
  service_discovery_client :: bool
  privet_http_factory :: bool
  privet_resolution :: "PrivetHTTPResolution option"
  current_http_client :: "PrivetHTTPClient option"
  current_register_operation :: "string option"
  current_info_operation :: bool
  confirm_api_call_flow :: "PrivetConfirmApiCallFlow option"
  cloud_print_account_manager :: "CloudPrintAccountManager option"
  current_register_device :: string
  current_register_user_index :: int
  xsrf_token_for_primary_user :: string
  device_descriptions :: "string \<rightharpoonup> DeviceDescription"
  profile :: Profile
  calls :: "call list"

definition kAccountIndexUseOAuth2 :: int where
  "kAccountIndexUseOAuth2 = - 1"

text \<open>The default constructor. It initialises \<^verbatim>\<open>is_visible_\<close> only; the smart pointers,
  strings and the map start empty, and \<^verbatim>\<open>current_register_user_index_\<close> is left
  indeterminate, so its start value \<open>idx\<close> is a parameter.\<close>

definition LocalDiscoveryUIHandler :: "Profile \<Rightarrow> int \<Rightarrow> Handler" where
  "LocalDiscoveryUIHandler prof idx =
     \<lparr>is_visible = False, privet_lister = False, service_discovery_client = False,
      privet_http_factory = False, privet_resolution = None, current_http_client = None,
      current_register_operation = None, current_info_operation = False,
      confirm_api_call_flow = None, cloud_print_account_manager = None,
      current_register_device = [], current_register_user_index = idx,
      xsrf_token_for_primary_user = [], device_descriptions = Map.empty,
      profile = prof, calls = []\<rparr>"

text \<open>The constructor that takes a lister. Its initialiser list is empty: \<^verbatim>\<open>privet_lister_\<close>
  receives the argument in the body (\<open>lister\<close> says whether the argument holds a lister), the
  other smart pointers, the strings and the map start empty, and both \<^verbatim>\<open>is_visible_\<close> and
  \<^verbatim>\<open>current_register_user_index_\<close> are left indeterminate, so their start values \<open>vis\<close>
  and \<open>idx\<close> are parameters.\<close>

definition LocalDiscoveryUIHandler_lister :: "Profile \<Rightarrow> bool \<Rightarrow> bool \<Rightarrow> int \<Rightarrow> Handler" where
  "LocalDiscoveryUIHandler_lister prof lister vis idx =
     \<lparr>is_visible = vis, privet_lister = lister, service_discovery_client = False,
      privet_http_factory = False, privet_resolution = None, current_http_client = None,
      current_register_operation = None, current_info_operation = False,
      confirm_api_call_flow = None, cloud_print_account_manager = None,
      current_register_device = [], current_register_user_index = idx,
      xsrf_token_for_primary_user = [], device_descriptions = Map.empty,
      profile = prof, calls = []\<rparr>"

text \<open>The class \<^verbatim>\<open>Factory\<close> is declared in the header, which is not among the sources. A
  factory is given by the handler its \<^verbatim>\<open>CreateLocalDiscoveryUIHandler\<close> returns.\<close>

datatype Factory = Factory (CreateLocalDiscoveryUIHandler: Handler)

definition emit :: "call \<Rightarrow> Handler \<Rightarrow> Handler" where
  "emit c h = h\<lparr>calls := calls h @ [c]\<rparr>"

section \<open>Discovery events\<close>

text \<open>\<^verbatim>\<open>net::IPAddressToString\<close> is not among the sources; it is the parameter \<open>ip2s\<close>.\<close>

definition device_info :: "(8 word list \<Rightarrow> string) \<Rightarrow> DeviceDescription \<Rightarrow> Value" where
  "device_info ip2s description =
     (let info = dict_set ''domain'' (StringValue (host (address description))) [];
          info = dict_set ''port'' (IntegerValue (uint (port (address description)))) info;
          ip_addr_string = (if ip_address description \<noteq> [] then ip2s (ip_address description) else []);
          info = dict_set ''ip'' (StringValue ip_addr_string) info;
          info = dict_set ''lastSeen'' (StringValue ''unknown'') info;
          info = dict_set ''registered'' (BooleanValue (device_id description \<noteq> [])) info
      in DictionaryValue info)"

definition DeviceChanged ::
  "(8 word list \<Rightarrow> string) \<Rightarrow> bool \<Rightarrow> string \<Rightarrow> DeviceDescription \<Rightarrow> Handler \<Rightarrow> Handler" where
  "DeviceChanged ip2s added name description h =
     emit (CallJavascriptFunction ''local_discovery.onServiceUpdate''
             [StringValue name, device_info ip2s description])
          (h\<lparr>device_descriptions := (device_descriptions h)(name \<mapsto> description)\<rparr>)"

definition DeviceRemoved :: "string \<Rightarrow> Handler \<Rightarrow> Handler" where
  "DeviceRemoved name h =
     emit (CallJavascriptFunction ''local_discovery.onServiceUpdate''
             [StringValue name, NullValue])
          (h\<lparr>device_descriptions := (device_descriptions h)(name := None)\<rparr>)"

text \<open>The events the device lister delivers to its delegate, and their delivery in order.\<close>

datatype lister_event =
    Changed bool string DeviceDescription
  | Removed string

fun deliver :: "(8 word list \<Rightarrow> string) \<Rightarrow> lister_event \<Rightarrow> Handler \<Rightarrow> Handler" where
  "deliver ip2s (Changed added name description) h = DeviceChanged ip2s added name description h"
| "deliver ip2s (Removed name) h = DeviceRemoved name h"

fun deliver_all :: "(8 word list \<Rightarrow> string) \<Rightarrow> lister_event list \<Rightarrow> Handler \<Rightarrow> Handler" where
  "deliver_all ip2s [] h = h"
| "deliver_all ip2s (e # es) h = deliver_all ip2s es (deliver ip2s e h)"

text \<open>The spec's side of the first property: the name an event is about, the registry
  entry it asks for, the notification it asks for, and the last event about a name. The
  notification of a change carries the description as the page reads it, written out here
  entry by entry: host and port of the address, the printed IP address (empty when the
  description has none), the fixed text of \<^verbatim>\<open>lastSeen\<close>, and whether the device has an id.\<close>

definition description_payload :: "(8 word list \<Rightarrow> string) \<Rightarrow> DeviceDescription \<Rightarrow> Value" where
  "description_payload ip2s d =
     DictionaryValue
       [(''domain'', StringValue (host (address d))),
        (''port'', IntegerValue (uint (port (address d)))),
        (''ip'', StringValue (if ip_address d = [] then [] else ip2s (ip_address d))),
        (''lastSeen'', StringValue ''unknown''),
        (''registered'', BooleanValue (device_id d \<noteq> []))]"

fun event_name :: "lister_event \<Rightarrow> string" where
  "event_name (Changed added name description) = name"
| "event_name (Removed name) = name"

fun event_entry :: "lister_event \<Rightarrow> DeviceDescription option" where
  "event_entry (Changed added name description) = Some description"
| "event_entry (Removed name) = None"

fun event_notification :: "(8 word list \<Rightarrow> string) \<Rightarrow> lister_event \<Rightarrow> call" where
  "event_notification ip2s (Changed added name description) =
     CallJavascriptFunction ''local_discovery.onServiceUpdate''
       [StringValue name, description_payload ip2s description]"
| "event_notification ip2s (Removed name) =
     CallJavascriptFunction ''local_discovery.onServiceUpdate'' [StringValue name, NullValue]"

definition last_event_for :: "string \<Rightarrow> lister_event list \<Rightarrow> lister_event option" where
  "last_event_for name es = List.find (\<lambda>e. event_name e = name) (rev es)"

definition registry_after ::
  "lister_event list \<Rightarrow> (string \<rightharpoonup> DeviceDescription) \<Rightarrow> string \<Rightarrow> DeviceDescription option" where
  "registry_after es m name =
     (case last_event_for name es of None \<Rightarrow> m name | Some e \<Rightarrow> event_entry e)"

section \<open>Visibility\<close>

text \<open>\<^verbatim>\<open>g_num_visible\<close> is a variable of the file, shared by all handlers of the process. The
  functions that touch it take it with the handler and return both.\<close>

definition GetHasVisible :: "int \<Rightarrow> bool" where
  "GetHasVisible g_num_visible = (g_num_visible \<noteq> 0)"

definition SetIsVisible :: "bool \<Rightarrow> int \<times> Handler \<Rightarrow> int \<times> Handler" where
  "SetIsVisible visible s =
     (case s of (g_num_visible, h) \<Rightarrow>
        if visible \<noteq> is_visible h
        then (g_num_visible + (if visible then 1 else - 1), h\<lparr>is_visible := visible\<rparr>)
        else (g_num_visible, h))"

definition HandleIsVisible :: "Value list \<Rightarrow> int \<times> Handler \<Rightarrow> int \<times> Handler" where
  "HandleIsVisible args s =
     SetIsVisible (case GetBoolean args 0 of Some b \<Rightarrow> b | None \<Rightarrow> False) s"

text \<open>The destructor; the handler it returns is the one that goes away.\<close>

definition destroy :: "int \<times> Handler \<Rightarrow> int \<times> Handler" where
  "destroy s =
     (case SetIsVisible False s of (g_num_visible, h) \<Rightarrow>
        (g_num_visible,
         if service_discovery_client h
         then emit ServiceDiscovery_ReleaseClient (h\<lparr>service_discovery_client := False\<rparr>)
         else h))"

text \<open>The process: the two variables of the file, \<^verbatim>\<open>g_factory\<close> (\<open>None\<close> is \<^verbatim>\<open>NULL\<close>) and
  \<^verbatim>\<open>g_num_visible\<close>, and the handlers ever created (\<open>None\<close> once destroyed). The counter is
  a C++ \<^verbatim>\<open>int\<close>, an unbounded integer here. \<^verbatim>\<open>Create\<close> asks the factory when one is installed
  and runs the default constructor otherwise.\<close>

record Process =
  g_factory :: "Factory option"
  g_num_visible :: int
  handlers :: "Handler option list"

definition initial_process :: Process where
  "initial_process = \<lparr>g_factory = None, g_num_visible = 0, handlers = []\<rparr>"

datatype process_event =
    SetFactory "Factory option"
  | Create Profile int
  | IsVisible nat "Value list"
  | Destroy nat

definition live :: "Process \<Rightarrow> nat \<Rightarrow> Handler option" where
  "live p i = (if i < length (handlers p) then handlers p ! i else None)"

fun process_step :: "process_event \<Rightarrow> Process \<Rightarrow> Process" where
  "process_step (SetFactory factory) p = p\<lparr>g_factory := factory\<rparr>"
| "process_step (Create prof idx) p =
     (case g_factory p of
        Some factory \<Rightarrow> p\<lparr>handlers := handlers p @ [Some (CreateLocalDiscoveryUIHandler factory)]\<rparr>
      | None \<Rightarrow> p\<lparr>handlers := handlers p @ [Some (LocalDiscoveryUIHandler prof idx)]\<rparr>)"
| "process_step (IsVisible i args) p =
     (case live p i of
        None \<Rightarrow> p
      | Some h \<Rightarrow>
          (case HandleIsVisible args (g_num_visible p, h) of (g, h') \<Rightarrow>
             p\<lparr>g_num_visible := g, handlers := (handlers p)[i := Some h']\<rparr>))"
| "process_step (Destroy i) p =
     (case live p i of
        None \<Rightarrow> p
      | Some h \<Rightarrow>
          (case destroy (g_num_visible p, h) of (g, h') \<Rightarrow>
             p\<lparr>g_num_visible := g, handlers := (handlers p)[i := None]\<rparr>))"

fun run_process :: "process_event list \<Rightarrow> Process \<Rightarrow> Process" where
  "run_process [] p = p"
| "run_process (e # es) p = run_process es (process_step e p)"

fun shown :: "Handler option \<Rightarrow> bool" where
  "shown None = False"
| "shown (Some h) = is_visible h"

definition num_visible :: "Handler option list \<Rightarrow> nat" where
  "num_visible hs = length (filter shown hs)"

section \<open>Requests of the page\<close>

datatype crash = NullDereference

definition HandleStart :: "Value list \<Rightarrow> Handler \<Rightarrow> Handler" where
  "HandleStart args h =
     (let h = (if \<not> privet_lister h
               then (emit ServiceDiscovery_GetClient h)
                      \<lparr>privet_lister := True, service_discovery_client := True,
                       privet_http_factory := True\<rparr>
               else h)
      in emit (Lister_DiscoverNewDevices False) (emit Lister_Start h))"

text \<open>\<^verbatim>\<open>device_descriptions_[name]\<close>: \<^verbatim>\<open>std::map::operator[]\<close> inserts a value-initialised
  description when the key is missing, and returns the stored one.\<close>

definition map_index ::
  "(string \<rightharpoonup> DeviceDescription) \<Rightarrow> string \<Rightarrow> (string \<rightharpoonup> DeviceDescription) \<times> DeviceDescription" where
  "map_index m name =
     (case m name of
        None \<Rightarrow> (m(name \<mapsto> default_DeviceDescription), default_DeviceDescription)
      | Some d \<Rightarrow> (m, d))"

definition GetCloudPrintBaseUrl :: "string \<Rightarrow> Handler \<Rightarrow> string \<times> Handler" where
  "GetCloudPrintBaseUrl device_name h =
     (case map_index (device_descriptions h) device_name of
        (m, d) \<Rightarrow> (url d, h\<lparr>device_descriptions := m\<rparr>))"

definition GetSyncAccount :: "Handler \<Rightarrow> string" where
  "GetSyncAccount h = (case signin_manager (profile h) of None \<Rightarrow> [] | Some username \<Rightarrow> username)"

definition HandleRegisterDevice :: "Value list \<Rightarrow> Handler \<Rightarrow> Handler" where
  "HandleRegisterDevice args h =
     (let device_name = (case GetString args 0 of Some s \<Rightarrow> s | None \<Rightarrow> []);
          h = h\<lparr>current_register_device := device_name\<rparr>
      in case GetCloudPrintBaseUrl device_name h of
           (base_url, h) \<Rightarrow>
             (let manager = CloudPrintAccountManager (request_context (profile h)) base_url 0
                              OnCloudPrintAccountsResolved_cb
              in emit (AccountManager_Start manager)
                   (h\<lparr>cloud_print_account_manager := Some manager\<rparr>)))"

definition HandleInfoRequested :: "Value list \<Rightarrow> Handler \<Rightarrow> crash + Handler" where
  "HandleInfoRequested args h =
     (let device_name = (case GetString args 0 of Some s \<Rightarrow> s | None \<Rightarrow> [])
      in if \<not> privet_http_factory h then Inl NullDereference
         else case map_index (device_descriptions h) device_name of
           (m, d) \<Rightarrow>
             (let resolution = CreatePrivetHTTP device_name (address d) StartInfoHTTP_cb
              in Inr (emit (Resolution_Start resolution)
                        (h\<lparr>device_descriptions := m, privet_resolution := Some resolution\<rparr>))))"

definition HandleChooseUser :: "Value list \<Rightarrow> Handler \<Rightarrow> crash + Handler" where
  "HandleChooseUser args h =
     (let h = (case GetInteger args 0 of
                 Some n \<Rightarrow> h\<lparr>current_register_user_index := n\<rparr>
               | None \<Rightarrow> h);
          user = (case GetString args 1 of Some s \<Rightarrow> s | None \<Rightarrow> [])
      in if \<not> privet_http_factory h then Inl NullDereference
         else case map_index (device_descriptions h) (current_register_device h) of
           (m, d) \<Rightarrow>
             (let resolution = CreatePrivetHTTP (current_register_device h) (address d)
                                 (StartRegisterHTTP_cb user)
              in Inr (emit (Resolution_Start resolution)
                        (h\<lparr>device_descriptions := m, privet_resolution := Some resolution\<rparr>))))"

section \<open>Messages to the page\<close>

definition LogRegisterErrorToWeb :: "string \<Rightarrow> Handler \<Rightarrow> Handler" where
  "LogRegisterErrorToWeb error h =
     emit (CallJavascriptFunction ''local_discovery.registrationFailed'' [StringValue error]) h"

definition LogRegisterDoneToWeb :: "string \<Rightarrow> Handler \<Rightarrow> Handler" where
  "LogRegisterDoneToWeb device h =
     emit (CallJavascriptFunction ''local_discovery.registrationSuccess'' [StringValue device]) h"

definition LogInfoErrorToWeb :: "string \<Rightarrow> Handler \<Rightarrow> Handler" where
  "LogInfoErrorToWeb error h =
     emit (LOG_ERROR error)
       (emit (CallJavascriptFunction ''local_discovery.infoFailed'' [StringValue error]) h)"

section \<open>Resolution and the two operations\<close>

definition StartRegisterHTTP :: "string \<Rightarrow> PrivetHTTPClient option \<Rightarrow> Handler \<Rightarrow> Handler" where
  "StartRegisterHTTP user http_client h =
     (let h = h\<lparr>current_http_client := http_client\<rparr>
      in case current_http_client h of
           None \<Rightarrow> LogRegisterErrorToWeb ''Resolution failed'' h
         | Some client \<Rightarrow>
             emit (RegisterOperation_Start user) (h\<lparr>current_register_operation := Some user\<rparr>))"

definition StartInfoHTTP :: "PrivetHTTPClient option \<Rightarrow> Handler \<Rightarrow> Handler" where
  "StartInfoHTTP http_client h =
     (let h = h\<lparr>current_http_client := http_client\<rparr>
      in case current_http_client h of
           None \<Rightarrow> LogRegisterErrorToWeb ''Resolution failed'' h
         | Some client \<Rightarrow> emit InfoOperation_Start (h\<lparr>current_info_operation := True\<rparr>))"

fun run_resolution_callback ::
  "resolution_callback \<Rightarrow> PrivetHTTPClient option \<Rightarrow> Handler \<Rightarrow> Handler" where
  "run_resolution_callback StartInfoHTTP_cb http_client h = StartInfoHTTP http_client h"
| "run_resolution_callback (StartRegisterHTTP_cb user) http_client h =
     StartRegisterHTTP user http_client h"

text \<open>\<^verbatim>\<open>%d\<close> of \<^verbatim>\<open>StringPrintf\<close>: the decimal digits, with a minus sign below zero.\<close>

fun decimal :: "nat \<Rightarrow> string" where
  "decimal n =
     (if n < 10 then [''0123456789'' ! n]
      else decimal (n div 10) @ [''0123456789'' ! (n mod 10)])"

declare decimal.simps [simp del]

definition StringPrintf_d :: "int \<Rightarrow> string" where
  "StringPrintf_d n = (if n < 0 then ''-'' @ decimal (nat (- n)) else decimal (nat n))"

text \<open>\<^verbatim>\<open>net::HTTP_OK\<close> of \<^verbatim>\<open>net/http/http_status_code.h\<close>.\<close>

definition HTTP_OK :: int where
  "HTTP_OK = 200"

definition OnPrivetInfoDone :: "int \<Rightarrow> (string \<times> Value) list option \<Rightarrow> Handler \<Rightarrow> Handler" where
  "OnPrivetInfoDone http_code json_value h =
     (if http_code \<noteq> HTTP_OK \<or> json_value = None
      then LogInfoErrorToWeb (''HTTP error '' @ StringPrintf_d http_code) h
      else emit (CallJavascriptFunction ''local_discovery.renderInfo''
                   [DictionaryValue (the json_value)]) h)"

section \<open>Accounts and confirmation\<close>

text \<open>The loop of \<^verbatim>\<open>OnCloudPrintAccountsResolved\<close> over the resolver's accounts, with its
  counter \<^verbatim>\<open>account_index\<close> and the list built so far. The counter is a C++ \<^verbatim>\<open>int\<close> that
  grows by one per account, an unbounded integer here.\<close>

fun annotate_accounts :: "string \<Rightarrow> string list \<Rightarrow> int \<Rightarrow> Value list \<Rightarrow> Value list" where
  "annotate_accounts sync_account [] account_index annotated = annotated"
| "annotate_accounts sync_account (a # accounts) account_index annotated =
     (if a = sync_account
      then annotate_accounts sync_account accounts (account_index + 1) annotated
      else annotate_accounts sync_account accounts (account_index + 1)
             (annotated @ [ListValue [IntegerValue account_index, StringValue a]]))"

definition accounts_annotated_list :: "string \<Rightarrow> string list \<Rightarrow> Value list" where
  "accounts_annotated_list sync_account accounts =
     annotate_accounts sync_account accounts 0
       (if sync_account \<noteq> []
        then [ListValue [IntegerValue kAccountIndexUseOAuth2, StringValue sync_account]]
        else [])"

definition OnCloudPrintAccountsResolved :: "string list \<Rightarrow> string \<Rightarrow> Handler \<Rightarrow> Handler" where
  "OnCloudPrintAccountsResolved accounts xsrf_token h =
     (let h = h\<lparr>xsrf_token_for_primary_user := xsrf_token\<rparr>;
          sync_account = GetSyncAccount h
      in emit (CallJavascriptFunction ''local_discovery.requestUser''
                 [ListValue (accounts_annotated_list sync_account accounts)]) h)"

definition StartCookieConfirmFlow :: "int \<Rightarrow> string \<Rightarrow> GURL \<Rightarrow> Handler \<Rightarrow> Handler" where
  "StartCookieConfirmFlow user_index xsrf_token automated_claim_url h =
     (let flow = CookieConfirmFlow (request_context (profile h)) user_index xsrf_token
                   automated_claim_url
      in emit (ConfirmFlow_Start flow) (h\<lparr>confirm_api_call_flow := Some flow\<rparr>))"

definition OnXSRFTokenForSecondaryAccount ::
  "GURL \<Rightarrow> string list \<Rightarrow> string \<Rightarrow> Handler \<Rightarrow> Handler" where
  "OnXSRFTokenForSecondaryAccount automated_claim_url accounts xsrf_token h =
     StartCookieConfirmFlow (current_register_user_index h) xsrf_token automated_claim_url h"

fun run_accounts_callback ::
  "accounts_callback \<Rightarrow> string list \<Rightarrow> string \<Rightarrow> Handler \<Rightarrow> Handler" where
  "run_accounts_callback OnCloudPrintAccountsResolved_cb accounts xsrf_token h =
     OnCloudPrintAccountsResolved accounts xsrf_token h"
| "run_accounts_callback (OnXSRFTokenForSecondaryAccount_cb automated_claim_url) accounts xsrf_token h =
     OnXSRFTokenForSecondaryAccount automated_claim_url accounts xsrf_token h"

text \<open>\<^verbatim>\<open>StringPrintf(kPrivetAutomatedClaimURLFormat, base_url.c_str(), token.c_str())\<close> with
  the format \<^verbatim>\<open>"%s/confirm?token=%s"\<close>; a C string ends at its first zero byte.\<close>

definition c_str :: "string \<Rightarrow> string" where
  "c_str s = takeWhile (\<lambda>c. c \<noteq> CHR 0x00) s"

definition automated_claim_url :: "string \<Rightarrow> string \<Rightarrow> GURL" where
  "automated_claim_url base_url token = GURL (c_str base_url @ ''/confirm?token='' @ c_str token)"

text \<open>The parameters \<^verbatim>\<open>operation\<close> and \<^verbatim>\<open>url\<close> of the callback are not used by the code;
  \<^verbatim>\<open>url\<close> is kept as \<open>confirm_url\<close>, the pointer is dropped.\<close>

definition OnPrivetRegisterClaimToken :: "string \<Rightarrow> GURL \<Rightarrow> Handler \<Rightarrow> crash + Handler" where
  "OnPrivetRegisterClaimToken token confirm_url h =
     (case current_http_client h of
        None \<Rightarrow> Inl NullDereference
      | Some client \<Rightarrow>
          if device_descriptions h (GetName client) = None
          then Inr (LogRegisterErrorToWeb ''Device no longer exists'' h)
          else case GetCloudPrintBaseUrl (GetName client) h of
            (base_url, h) \<Rightarrow>
              (let claim_url = automated_claim_url base_url token
               in if current_register_user_index h = kAccountIndexUseOAuth2
                  then (case token_service (profile h) of
                          None \<Rightarrow> Inr (LogRegisterErrorToWeb ''Could not get token service'' h)
                        | Some service \<Rightarrow>
                            (let flow = TokenConfirmFlow (request_context (profile h)) service
                                          claim_url
                             in Inr (emit (ConfirmFlow_Start flow)
                                       (h\<lparr>confirm_api_call_flow := Some flow\<rparr>))))
                  else if current_register_user_index h = 0
                  then Inr (StartCookieConfirmFlow (current_register_user_index h)
                              (xsrf_token_for_primary_user h) claim_url h)
                  else (let manager = CloudPrintAccountManager (request_context (profile h))
                                        base_url (current_register_user_index h)
                                        (OnXSRFTokenForSecondaryAccount_cb claim_url)
                        in Inr (emit (AccountManager_Start manager)
                                  (h\<lparr>cloud_print_account_manager := Some manager\<rparr>)))))"

text \<open>\<^verbatim>\<open>OnPrivetRegisterError\<close> ignores all its parameters.\<close>

definition OnPrivetRegisterError :: "Handler \<Rightarrow> Handler" where
  "OnPrivetRegisterError h = LogRegisterErrorToWeb ''Registration error'' h"

definition OnPrivetRegisterDone :: "string \<Rightarrow> Handler \<Rightarrow> Handler" where
  "OnPrivetRegisterDone device h =
     LogRegisterDoneToWeb device (h\<lparr>current_register_operation := None, current_http_client := None\<rparr>)"

text \<open>Modelled from the spec: the enumeration \<^verbatim>\<open>PrivetConfirmApiCallFlow::Status\<close> is not among
  the sources; the confirm flow calls back with success or failure.\<close>

datatype Status = SUCCESS | FAILURE

definition OnConfirmDone :: "Status \<Rightarrow> Handler \<Rightarrow> crash + Handler" where
  "OnConfirmDone status h =
     (if status = SUCCESS
      then (case current_register_operation h of
              None \<Rightarrow> Inl NullDereference
            | Some user \<Rightarrow>
                Inr (emit RegisterOperation_CompleteRegistration (h\<lparr>confirm_api_call_flow := None\<rparr>)))
      else Inr (LogRegisterErrorToWeb ''Confirm error'' h))"

text \<open>A register request followed by the completion of the Account Resolver call it started:
  the resolver answers the manager the handler holds, through the callback bound to it.\<close>

definition primary_resolution :: "Value list \<times> string list \<times> string \<Rightarrow> Handler \<Rightarrow> Handler" where
  "primary_resolution r h =
     (case r of (args, accounts, xsrf_token) \<Rightarrow>
        (let h = HandleRegisterDevice args h
         in case cloud_print_account_manager h of
              None \<Rightarrow> h
            | Some (CloudPrintAccountManager context base_url user_index callback) \<Rightarrow>
                run_accounts_callback callback accounts xsrf_token h))"

fun primary_resolutions :: "(Value list \<times> string list \<times> string) list \<Rightarrow> Handler \<Rightarrow> Handler" where
  "primary_resolutions [] h = h"
| "primary_resolutions (r # rs) h = primary_resolutions rs (primary_resolution r h)"

text \<open>The spec's side of the account list: the signed-in account first, with the token-path
  sentinel, then the resolver's accounts with their positions, without those named like
  the signed-in account.\<close>

definition spec_annotated_list :: "string \<Rightarrow> string list \<Rightarrow> Value list" where
  "spec_annotated_list sync_account accounts =
     (if sync_account \<noteq> [] then [ListValue [IntegerValue (- 1), StringValue sync_account]] else [])
     @ map (\<lambda>(i, a). ListValue [IntegerValue (int i), StringValue a])
         (filter (\<lambda>(i, a). a \<noteq> sync_account) (enumerate 0 accounts))"

section \<open>An example session\<close>

text \<open>A signed-in profile, a printer, and the handler after the page has started discovery,
  the printer has been discovered, a register request has been answered by the Account
  Resolver, the operator has chosen the account with index \<open>idx\<close>, and the client for the
  printer has been resolved. It is the state in which the claim token arrives.\<close>

definition example_profile :: "nat option \<Rightarrow> Profile" where
  "example_profile service =
     \<lparr>request_context = 1, signin_manager = Some ''a@x'', token_service = service\<rparr>"

definition example_printer :: DeviceDescription where
  "example_printer =
     \<lparr>address = \<lparr>host = ''printer-1.local'', port = 631\<rparr>, ip_address = [192, 168, 0, 7],
      url = ''https://cloud.example/cp'', device_id = []\<rparr>"

definition example_ip2s :: "8 word list \<Rightarrow> string" where
  "example_ip2s ip = ''192.168.0.7''"

definition example_start :: "nat option \<Rightarrow> Handler" where
  "example_start service = HandleStart [] (LocalDiscoveryUIHandler (example_profile service) 0)"

definition example_session :: "nat option \<Rightarrow> int \<Rightarrow> Handler" where
  "example_session service idx =
     (let h = DeviceChanged example_ip2s True ''printer-1'' example_printer (example_start service);
          h = primary_resolution ([StringValue ''printer-1''], [''b@x'', ''a@x'', ''c@x''], ''xsrf-0'') h
      in case HandleChooseUser [IntegerValue idx, StringValue ''b@x''] h of
           Inl c \<Rightarrow> h
         | Inr h \<Rightarrow>
             (case privet_resolution h of
                None \<Rightarrow> h
              | Some (CreatePrivetHTTP name addr callback) \<Rightarrow>
                  run_resolution_callback callback (Some (PrivetHTTPClient name)) h))"

text \<open>The invariant the counter is meant to have: it is the number of visible handlers. It
  is kept as long as no factory is installed.\<close>

definition counter_ok :: "Process \<Rightarrow> bool" where
  "counter_ok p = (g_num_visible p = int (num_visible (handlers p)))"

fun no_factory :: "process_event \<Rightarrow> bool" where
  "no_factory (SetFactory factory) = (factory = None)"
| "no_factory (Create prof idx) = True"
| "no_factory (IsVisible i args) = True"
| "no_factory (Destroy i) = True"

text \<open>A factory that builds its handler with the constructor taking a lister, in a run where
  the uninitialised \<^verbatim>\<open>is_visible_\<close> reads as true.\<close>

definition example_factory :: Factory where
  "example_factory = Factory (LocalDiscoveryUIHandler_lister (example_profile None) True True 0)"

section \<open>Properties\<close>

subsection \<open>Helper facts\<close>

lemma deliver_registry:
  "device_descriptions (deliver ip2s e h) =
     (device_descriptions h)(event_name e := event_entry e)"
  by (cases e) (simp_all add: DeviceChanged_def DeviceRemoved_def emit_def)

lemma device_info_payload: "device_info ip2s d = description_payload ip2s d"
  by (simp add: device_info_def description_payload_def Let_def)

lemma deliver_calls: "calls (deliver ip2s e h) = calls h @ [event_notification ip2s e]"
  by (cases e) (simp_all add: DeviceChanged_def DeviceRemoved_def emit_def device_info_payload)

lemma find_append_cases:
  "List.find P (xs @ ys) = (case List.find P xs of None \<Rightarrow> List.find P ys | Some x \<Rightarrow> Some x)"
  by (induction xs) simp_all

lemma registry_after_Nil: "registry_after [] m name = m name"
  by (simp add: registry_after_def last_event_for_def)

lemma registry_after_Cons:
  "registry_after (e # es) m name = registry_after es (m(event_name e := event_entry e)) name"
  by (simp add: registry_after_def last_event_for_def find_append_cases split: option.splits)

lemma deliver_all_registry:
  "device_descriptions (deliver_all ip2s es h) name = registry_after es (device_descriptions h) name"
proof (induction es arbitrary: h)
  case Nil
  show ?case by (simp add: registry_after_Nil)
next
  case (Cons e es)
  show ?case by (simp only: deliver_all.simps Cons.IH deliver_registry registry_after_Cons)
qed

lemma deliver_all_calls:
  "calls (deliver_all ip2s es h) = calls h @ map (event_notification ip2s) es"
  by (induction es arbitrary: h) (simp_all add: deliver_calls)

lemma annotate_accounts_eq:
  "annotate_accounts sync accounts (int n) annotated =
     annotated @ map (\<lambda>(i, a). ListValue [IntegerValue (int i), StringValue a])
                   (filter (\<lambda>(i, a). a \<noteq> sync) (enumerate n accounts))"
proof (induction accounts arbitrary: n annotated)
  case Nil
  show ?case by simp
next
  case (Cons a accounts)
  have next_index: "int n + 1 = int (Suc n)" by simp
  show ?case
    by (simp only: annotate_accounts.simps next_index Cons.IH enumerate_simps) simp
qed

lemma accounts_annotated_list_eq:
  "accounts_annotated_list sync accounts = spec_annotated_list sync accounts"
  using annotate_accounts_eq [of sync accounts 0]
  by (simp add: accounts_annotated_list_def spec_annotated_list_def kAccountIndexUseOAuth2_def)

lemma primary_resolution_token:
  "xsrf_token_for_primary_user (primary_resolution (args, accounts, xsrf_token) h) = xsrf_token"
  by (simp add: primary_resolution_def HandleRegisterDevice_def GetCloudPrintBaseUrl_def
        map_index_def emit_def OnCloudPrintAccountsResolved_def Let_def split: option.split)

lemma claim_token_present:
  assumes "current_http_client h = Some client"
    and "device_descriptions h (GetName client) = Some d"
  shows "OnPrivetRegisterClaimToken token confirm_url h =
     (let claim_url = automated_claim_url (url d) token
               in if current_register_user_index h = kAccountIndexUseOAuth2
                  then (case token_service (profile h) of
                          None \<Rightarrow> Inr (LogRegisterErrorToWeb ''Could not get token service'' h)
                        | Some service \<Rightarrow>
                            (let flow = TokenConfirmFlow (request_context (profile h)) service
                                          claim_url
                             in Inr (emit (ConfirmFlow_Start flow)
                                       (h\<lparr>confirm_api_call_flow := Some flow\<rparr>))))
                  else if current_register_user_index h = 0
                  then Inr (StartCookieConfirmFlow (current_register_user_index h)
                              (xsrf_token_for_primary_user h) claim_url h)
                  else (let manager = CloudPrintAccountManager (request_context (profile h))
                                        (url d) (current_register_user_index h)
                                        (OnXSRFTokenForSecondaryAccount_cb claim_url)
                        in Inr (emit (AccountManager_Start manager)
                                  (h\<lparr>cloud_print_account_manager := Some manager\<rparr>))))"
  using assms
  by (simp add: OnPrivetRegisterClaimToken_def GetCloudPrintBaseUrl_def map_index_def Let_def)

lemma SetIsVisible_counter:
  "fst (SetIsVisible visible (g, h)) =
     g + (if visible = is_visible h then 0 else if visible then 1 else - 1)"
  by (simp add: SetIsVisible_def)

lemma SetIsVisible_flag: "is_visible (snd (SetIsVisible visible (g, h))) = visible"
  by (simp add: SetIsVisible_def)

lemma SetIsVisible_twice:
  "SetIsVisible visible (SetIsVisible visible (g, h)) = SetIsVisible visible (g, h)"
  by (simp add: SetIsVisible_def)

lemma num_visible_update:
  "i < length hs \<Longrightarrow>
     int (num_visible (hs[i := x])) =
       int (num_visible hs) - (if shown (hs ! i) then 1 else 0) + (if shown x then 1 else 0)"
proof (induction hs arbitrary: i)
  case Nil
  then show ?case by simp
next
  case (Cons a hs)
  show ?case
  proof (cases i)
    case 0
    then show ?thesis by (simp add: num_visible_def)
  next
    case (Suc j)
    with Cons.prems have "j < length hs" by simp
    from Cons.IH [OF this] show ?thesis
      by (auto simp add: Suc num_visible_def split: if_splits)
  qed
qed

lemma num_visible_append: "num_visible (hs @ [x]) = num_visible hs + (if shown x then 1 else 0)"
  by (simp add: num_visible_def)

lemma live_Some: "live p i = Some h \<Longrightarrow> i < length (handlers p) \<and> handlers p ! i = Some h"
  by (simp add: live_def split: if_splits)

lemma process_step_counter_ok:
  "counter_ok p \<Longrightarrow> g_factory p = None \<Longrightarrow> no_factory e \<Longrightarrow>
     counter_ok (process_step e p) \<and> g_factory (process_step e p) = None"
proof (cases e)
  case (SetFactory factory)
  assume "counter_ok p" and "no_factory e"
  then show ?thesis by (simp add: SetFactory counter_ok_def)
next
  case (Create prof idx)
  assume "counter_ok p" and "g_factory p = None"
  then show ?thesis
    by (simp add: Create counter_ok_def num_visible_append LocalDiscoveryUIHandler_def)
next
  case (IsVisible i args)
  assume ok: "counter_ok p" and nf: "g_factory p = None"
  show ?thesis
  proof (cases "live p i")
    case None
    with ok nf show ?thesis by (simp add: IsVisible)
  next
    case (Some h)
    note at = live_Some [OF Some]
    obtain g h' where r: "HandleIsVisible args (g_num_visible p, h) = (g, h')"
      by (cases "HandleIsVisible args (g_num_visible p, h)") auto
    from r have "g = int (num_visible (handlers p)) - (if is_visible h then 1 else 0)
                       + (if is_visible h' then 1 else 0)"
      using ok by (auto simp add: HandleIsVisible_def SetIsVisible_def counter_ok_def split: if_splits)
    then show ?thesis
      using at nf by (simp add: IsVisible Some r counter_ok_def num_visible_update)
  qed
next
  case (Destroy i)
  assume ok: "counter_ok p" and nf: "g_factory p = None"
  show ?thesis
  proof (cases "live p i")
    case None
    with ok nf show ?thesis by (simp add: Destroy)
  next
    case (Some h)
    note at = live_Some [OF Some]
    obtain g h' where r: "destroy (g_num_visible p, h) = (g, h')"
      by (cases "destroy (g_num_visible p, h)") auto
    from r have "g = int (num_visible (handlers p)) - (if is_visible h then 1 else 0)"
      using ok by (auto simp add: destroy_def SetIsVisible_def counter_ok_def split: if_splits)
    then show ?thesis
      using at nf by (simp add: Destroy Some r counter_ok_def num_visible_update)
  qed
qed

lemma run_process_counter_ok:
  "counter_ok p \<Longrightarrow> g_factory p = None \<Longrightarrow> list_all no_factory es \<Longrightarrow>
     counter_ok (run_process es p)"
proof (induction es arbitrary: p)
  case Nil
  then show ?case by simp
next
  case (Cons e es)
  from Cons.prems have step: "counter_ok (process_step e p) \<and> g_factory (process_step e p) = None"
    by (simp add: process_step_counter_ok)
  from Cons.prems have "list_all no_factory es" by simp
  with step show ?case by (simp add: Cons.IH)
qed

lemma initial_counter_ok: "counter_ok initial_process \<and> g_factory initial_process = None"
  by (simp add: counter_ok_def initial_process_def num_visible_def)

lemma default_constructed_counter:
  "list_all no_factory es \<Longrightarrow>
     g_num_visible (run_process es initial_process) =
       int (num_visible (handlers (run_process es initial_process)))"
  using run_process_counter_ok [of initial_process es] initial_counter_ok
  by (simp add: counter_ok_def)

lemma num_visible_le: "num_visible hs \<le> length hs"
  by (simp add: num_visible_def)

lemmas example_defs =
  example_session_def example_start_def example_profile_def example_printer_def example_ip2s_def
  LocalDiscoveryUIHandler_def HandleStart_def DeviceChanged_def DeviceRemoved_def emit_def
  primary_resolution_def HandleRegisterDevice_def GetCloudPrintBaseUrl_def map_index_def
  OnCloudPrintAccountsResolved_def HandleChooseUser_def StartRegisterHTTP_def Let_def

lemma example_session_client:
  "current_http_client (example_session service idx) = Some (PrivetHTTPClient ''printer-1'')"
  by (simp add: example_defs)

lemma example_session_registry:
  "device_descriptions (example_session service idx) (GetName (PrivetHTTPClient ''printer-1'')) = Some example_printer"
  by (simp add: example_defs)

lemma example_session_index:
  "current_register_user_index (example_session service idx) = idx"
  by (simp add: example_defs)

lemma example_session_token:
  "xsrf_token_for_primary_user (example_session service idx) = ''xsrf-0''"
  by (simp add: example_defs)

lemma example_session_profile:
  "profile (example_session service idx) = example_profile service"
  by (simp add: example_defs)

lemma example_printer_url: "url example_printer = ''https://cloud.example/cp''"
  by (simp add: example_printer_def)

lemma example_claim_url:
  "automated_claim_url ''https://cloud.example/cp'' ''tok'' =
     GURL ''https://cloud.example/cp/confirm?token=tok''"
  by (simp add: automated_claim_url_def c_str_def)

subsection \<open>Discovery events and the registry\<close>

text \<open>
  Claim C1. After any sequence of device-changed and device-removed events, the registry entry
  of every device name is the one asked for by the last event about that name (the full new
  description after a change, no entry after a removal, the old entry when no event was
  about the name), and the handler has made exactly one \<^verbatim>\<open>onServiceUpdate\<close> call per
  event, in arrival order. The call of a change carries the name and a dictionary with the
  host, the port, the printed IP address, \<^verbatim>\<open>lastSeen\<close> and the registered flag of the new
  description, which is never the null value; the call of a removal carries the name and the
  null value.
\<close>

theorem C1_registry_is_last_event_and_one_notification_each:
  "device_descriptions (deliver_all ip2s es h) name = registry_after es (device_descriptions h) name
   \<and> calls (deliver_all ip2s es h) = calls h @ map (event_notification ip2s) es
   \<and> event_notification ip2s (Changed added name d) =
       CallJavascriptFunction ''local_discovery.onServiceUpdate''
         [StringValue name,
          DictionaryValue
            [(''domain'', StringValue (host (address d))),
             (''port'', IntegerValue (uint (port (address d)))),
             (''ip'', StringValue (if ip_address d = [] then [] else ip2s (ip_address d))),
             (''lastSeen'', StringValue ''unknown''),
             (''registered'', BooleanValue (device_id d \<noteq> []))]]
   \<and> event_notification ip2s (Removed name) =
       CallJavascriptFunction ''local_discovery.onServiceUpdate'' [StringValue name, NullValue]
   \<and> description_payload ip2s d \<noteq> NullValue"
  by (simp add: deliver_all_registry deliver_all_calls description_payload_def)

theorem C1_registry_is_last_event_and_one_notification_each_witness:
  "device_descriptions
     (deliver_all example_ip2s
        [Changed True ''p1'' example_printer, Removed ''p1'', Changed True ''p2'' example_printer,
         Changed False ''p2'' default_DeviceDescription]
        (example_start None)) ''p1'' = None
   \<and> device_descriptions
     (deliver_all example_ip2s
        [Changed True ''p1'' example_printer, Removed ''p1'', Changed True ''p2'' example_printer,
         Changed False ''p2'' default_DeviceDescription]
        (example_start None)) ''p2'' = Some default_DeviceDescription
   \<and> calls
     (deliver_all example_ip2s
        [Changed True ''p1'' example_printer, Removed ''p1'', Changed True ''p2'' example_printer,
         Changed False ''p2'' default_DeviceDescription]
        (example_start None)) =
     calls (example_start None) @
       [CallJavascriptFunction ''local_discovery.onServiceUpdate''
          [StringValue ''p1'',
           DictionaryValue
             [(''domain'', StringValue ''printer-1.local''), (''port'', IntegerValue 631),
              (''ip'', StringValue ''192.168.0.7''), (''lastSeen'', StringValue ''unknown''),
              (''registered'', BooleanValue False)]],
        CallJavascriptFunction ''local_discovery.onServiceUpdate'' [StringValue ''p1'', NullValue],
        CallJavascriptFunction ''local_discovery.onServiceUpdate''
          [StringValue ''p2'',
           DictionaryValue
             [(''domain'', StringValue ''printer-1.local''), (''port'', IntegerValue 631),
              (''ip'', StringValue ''192.168.0.7''), (''lastSeen'', StringValue ''unknown''),
              (''registered'', BooleanValue False)]],
        CallJavascriptFunction ''local_discovery.onServiceUpdate''
          [StringValue ''p2'',
           DictionaryValue
             [(''domain'', StringValue []), (''port'', IntegerValue 0),
              (''ip'', StringValue []), (''lastSeen'', StringValue ''unknown''),
              (''registered'', BooleanValue False)]]]"
  using C1_registry_is_last_event_and_one_notification_each
          [of example_ip2s "[Changed True ''p1'' example_printer, Removed ''p1'',
             Changed True ''p2'' example_printer, Changed False ''p2'' default_DeviceDescription]"
             "example_start None" "''p1''"]
        C1_registry_is_last_event_and_one_notification_each
          [of example_ip2s "[Changed True ''p1'' example_printer, Removed ''p1'',
             Changed True ''p2'' example_printer, Changed False ''p2'' default_DeviceDescription]"
             "example_start None" "''p2''"]
  by (simp add: registry_after_def last_event_for_def description_payload_def example_printer_def
        default_DeviceDescription_def example_ip2s_def)

subsection \<open>The account list\<close>

text \<open>
  Claim C2, as amended. The claim says that no entry of the annotated list is tagged with
  index 0. The loop counts from 0, so the list has an entry tagged 0 exactly when the
  resolver returned at least one account and the first one is not named like the signed-in
  account; that entry names the resolver's first account. The token-path sentinel tags the
  entry of the signed-in account only, never an account of the resolver.
\<close>

theorem C2_index_zero_tags_first_resolver_account:
  "(ListValue [IntegerValue 0, StringValue a] \<in> set (accounts_annotated_list sync accounts))
     = (accounts \<noteq> [] \<and> hd accounts = a \<and> a \<noteq> sync)
   \<and> (ListValue [IntegerValue kAccountIndexUseOAuth2, StringValue a] \<in> set (accounts_annotated_list sync accounts))
     = (a = sync \<and> sync \<noteq> [])"
  by (auto simp add: accounts_annotated_list_eq spec_annotated_list_def kAccountIndexUseOAuth2_def
        in_set_enumerate_eq hd_conv_nth image_iff)

theorem C2_index_zero_tags_first_resolver_account_witness:
  "ListValue [IntegerValue 0, StringValue ''b@x''] \<in> set (accounts_annotated_list ''a@x'' [''b@x'', ''a@x'', ''c@x''])
   \<and> ListValue [IntegerValue 0, StringValue ''a@x''] \<notin> set (accounts_annotated_list ''a@x'' [''a@x'', ''b@x''])
   \<and> ListValue [IntegerValue kAccountIndexUseOAuth2, StringValue ''b@x''] \<notin> set (accounts_annotated_list ''a@x'' [''b@x''])"
  using C2_index_zero_tags_first_resolver_account [of "''b@x''" "''a@x''" "[''b@x'', ''a@x'', ''c@x'']"]
        C2_index_zero_tags_first_resolver_account [of "''a@x''" "''a@x''" "[''a@x'', ''b@x'']"]
        C2_index_zero_tags_first_resolver_account [of "''b@x''" "''a@x''" "[''b@x'']"]
  by simp

theorem C2_index_zero_entry_counterexample:
  "accounts_annotated_list ''a@x'' [''b@x'', ''a@x'', ''c@x''] =
     [ListValue [IntegerValue (- 1), StringValue ''a@x''],
      ListValue [IntegerValue 0, StringValue ''b@x''],
      ListValue [IntegerValue 2, StringValue ''c@x'']]"
  by (simp add: accounts_annotated_list_def kAccountIndexUseOAuth2_def)

text \<open>
  Claim C3, as amended. The claim says that the cached token of the primary account is captured
  once per session. \<^verbatim>\<open>OnCloudPrintAccountsResolved\<close> assigns it without a guard: after any
  non-empty sequence of register requests, each answered by the Account Resolver, the cache
  holds the token of the last answer. The completion of a secondary-account resolution does
  not change it.
\<close>

theorem C3_cached_token_is_latest_primary_resolution:
  "rs \<noteq> [] \<Longrightarrow>
     xsrf_token_for_primary_user (primary_resolutions rs h) = snd (snd (last rs))
     \<and> xsrf_token_for_primary_user
           (OnXSRFTokenForSecondaryAccount claim_url accounts xsrf_token (primary_resolutions rs h))
         = snd (snd (last rs))"
proof -
  assume "rs \<noteq> []"
  then have latest: "xsrf_token_for_primary_user (primary_resolutions rs h) = snd (snd (last rs))"
  proof (induction rs arbitrary: h)
    case Nil
    then show ?case by simp
  next
    case (Cons r rs)
    obtain args accs tok where r: "r = (args, accs, tok)"
      by (cases r) auto
    show ?case
    proof (cases "rs = []")
      case True
      then show ?thesis by (simp add: r primary_resolution_token)
    next
      case False
      then show ?thesis using Cons.IH by simp
    qed
  qed
  then show ?thesis
    by (simp add: OnXSRFTokenForSecondaryAccount_def StartCookieConfirmFlow_def emit_def Let_def)
qed

theorem C3_cached_token_is_latest_primary_resolution_witness:
  "[([StringValue ''printer-1''], [''b@x''], ''first''),
    ([StringValue ''printer-1''], [''b@x''], ''second'')] \<noteq> []
   \<and> xsrf_token_for_primary_user
       (primary_resolutions [([StringValue ''printer-1''], [''b@x''], ''first''),
                             ([StringValue ''printer-1''], [''b@x''], ''second'')] (example_start None))
     = ''second''
   \<and> xsrf_token_for_primary_user
       (OnXSRFTokenForSecondaryAccount (GURL []) [] ''other''
          (primary_resolutions [([StringValue ''printer-1''], [''b@x''], ''first''),
                                ([StringValue ''printer-1''], [''b@x''], ''second'')] (example_start None)))
     = ''second''"
  using C3_cached_token_is_latest_primary_resolution [of "[([StringValue ''printer-1''], [''b@x''], ''first''),
    ([StringValue ''printer-1''], [''b@x''], ''second'')]" "example_start None" "GURL []" "[]" "''other''"]
  by simp

theorem C3_second_resolution_counterexample:
  "xsrf_token_for_primary_user
     (primary_resolutions [([StringValue ''printer-1''], [''b@x''], ''first''),
                           ([StringValue ''printer-1''], [''b@x''], ''second'')] (example_start None))
   \<noteq> xsrf_token_for_primary_user
       (primary_resolutions [([StringValue ''printer-1''], [''b@x''], ''first'')] (example_start None))"
  by (simp add: primary_resolution_token)

subsection \<open>The claim token\<close>

text \<open>
  Claim C4. A claim token arrives while the handler holds a client whose device is in the
  registry and the chosen account index is not negative. With index 0 the handler makes one
  call, the start of a cookie confirm flow for user 0 with the cached token of the primary
  account and the claim URL, and no Account Resolver call. With an index above 0 it makes
  one call, the start of an Account Resolver call for that index, and when that call
  completes with a token the handler starts the cookie confirm flow for that index with the
  returned token and the same claim URL.
\<close>

theorem C4_cookie_path_primary_and_secondary:
  assumes "current_http_client h = Some client"
    and "device_descriptions h (GetName client) = Some d"
    and "0 \<le> current_register_user_index h"
  shows "case OnPrivetRegisterClaimToken token confirm_url h of
           Inl c \<Rightarrow> False
         | Inr h' \<Rightarrow>
             if current_register_user_index h = 0
             then calls h' = calls h @
                    [ConfirmFlow_Start
                       (CookieConfirmFlow (request_context (profile h)) 0
                          (xsrf_token_for_primary_user h) (automated_claim_url (url d) token))]
             else calls h' = calls h @
                    [AccountManager_Start
                       (CloudPrintAccountManager (request_context (profile h)) (url d)
                          (current_register_user_index h)
                          (OnXSRFTokenForSecondaryAccount_cb (automated_claim_url (url d) token)))]
                  \<and> calls (run_accounts_callback
                             (OnXSRFTokenForSecondaryAccount_cb (automated_claim_url (url d) token))
                             accounts xsrf_token h') =
                      calls h' @
                      [ConfirmFlow_Start
                         (CookieConfirmFlow (request_context (profile h))
                            (current_register_user_index h) xsrf_token
                            (automated_claim_url (url d) token))]"
  using assms(3)
  by (simp add: claim_token_present [OF assms(1,2)] kAccountIndexUseOAuth2_def
        StartCookieConfirmFlow_def OnXSRFTokenForSecondaryAccount_def emit_def Let_def)

theorem C4_cookie_path_primary_and_secondary_witness:
  "0 \<le> current_register_user_index (example_session None 0)
   \<and> (case OnPrivetRegisterClaimToken ''tok'' (GURL []) (example_session None 0) of
         Inl c \<Rightarrow> False
       | Inr h' \<Rightarrow>
           calls h' = calls (example_session None 0) @
             [ConfirmFlow_Start (CookieConfirmFlow 1 0 ''xsrf-0''
                (GURL ''https://cloud.example/cp/confirm?token=tok''))])
   \<and> 0 \<le> current_register_user_index (example_session None 2)
   \<and> (case OnPrivetRegisterClaimToken ''tok'' (GURL []) (example_session None 2) of
         Inl c \<Rightarrow> False
       | Inr h' \<Rightarrow>
           calls h' = calls (example_session None 2) @
             [AccountManager_Start (CloudPrintAccountManager 1 ''https://cloud.example/cp'' 2
                (OnXSRFTokenForSecondaryAccount_cb (GURL ''https://cloud.example/cp/confirm?token=tok'')))]
           \<and> calls (run_accounts_callback
                 (OnXSRFTokenForSecondaryAccount_cb (GURL ''https://cloud.example/cp/confirm?token=tok''))
                 [''b@x'', ''a@x'', ''c@x''] ''xsrf-2'' h') =
               calls h' @
                 [ConfirmFlow_Start (CookieConfirmFlow 1 2 ''xsrf-2''
                    (GURL ''https://cloud.example/cp/confirm?token=tok''))])"
proof -
  have i0: "0 \<le> current_register_user_index (example_session None 0)"
    by (simp add: example_session_index)
  have i2: "0 \<le> current_register_user_index (example_session None 2)"
    by (simp add: example_session_index)
  show ?thesis
    using i0 i2
      C4_cookie_path_primary_and_secondary [where token = "''tok''" and confirm_url = "GURL []",
          OF example_session_client example_session_registry i0]
      C4_cookie_path_primary_and_secondary [where token = "''tok''" and confirm_url = "GURL []"
            and accounts = "[''b@x'', ''a@x'', ''c@x'']" and xsrf_token = "''xsrf-2''",
          OF example_session_client example_session_registry i2]
    by (simp add: example_session_index example_session_token example_session_profile
          example_printer_url example_claim_url example_profile_def cong: sum.case_cong)
qed

text \<open>
  Claim C5. A claim token arrives while the handler holds a client whose device is not in the
  registry: the callback returns the handler unchanged but for one more call, the
  registration failure ``Device no longer exists''; no confirm flow and no Account Resolver
  call is started.
\<close>

theorem C5_device_gone_reports_failure_only:
  assumes "current_http_client h = Some client"
    and "device_descriptions h (GetName client) = None"
  shows "OnPrivetRegisterClaimToken token confirm_url h =
           Inr (h\<lparr>calls := calls h @
                  [CallJavascriptFunction ''local_discovery.registrationFailed''
                     [StringValue ''Device no longer exists'']]\<rparr>)"
  using assms by (simp add: OnPrivetRegisterClaimToken_def LogRegisterErrorToWeb_def emit_def)

theorem C5_device_gone_reports_failure_only_witness:
  "current_http_client (DeviceRemoved ''printer-1'' (example_session None 0)) =
     Some (PrivetHTTPClient ''printer-1'')
   \<and> device_descriptions (DeviceRemoved ''printer-1'' (example_session None 0)) ''printer-1'' = None
   \<and> OnPrivetRegisterClaimToken ''tok'' (GURL []) (DeviceRemoved ''printer-1'' (example_session None 0)) =
       Inr ((DeviceRemoved ''printer-1'' (example_session None 0))
              \<lparr>calls := calls (DeviceRemoved ''printer-1'' (example_session None 0)) @
                 [CallJavascriptFunction ''local_discovery.registrationFailed''
                    [StringValue ''Device no longer exists'']]\<rparr>)"
proof -
  have client: "current_http_client (DeviceRemoved ''printer-1'' (example_session None 0)) =
     Some (PrivetHTTPClient ''printer-1'')"
    by (simp add: DeviceRemoved_def emit_def example_session_client)
  have gone: "device_descriptions (DeviceRemoved ''printer-1'' (example_session None 0))
                (GetName (PrivetHTTPClient ''printer-1'')) = None"
    by (simp add: DeviceRemoved_def emit_def)
  show ?thesis
    using client gone C5_device_gone_reports_failure_only [OF client gone, of "''tok''" "GURL []"] by simp
qed

text \<open>
  Claim C6. A claim token arrives while the handler holds a client whose device is in the
  registry and the chosen account index is the token-path sentinel. Without a token service
  the handler is unchanged but for one more call, the registration failure ``Could not get
  token service''; with a token service it stores and starts a token confirm flow for the
  claim URL, and makes no other call.
\<close>

theorem C6_token_path_confirm_or_failure:
  assumes "current_http_client h = Some client"
    and "device_descriptions h (GetName client) = Some d"
    and "current_register_user_index h = kAccountIndexUseOAuth2"
  shows "OnPrivetRegisterClaimToken token confirm_url h =
     (case token_service (profile h) of
        None \<Rightarrow>
          Inr (h\<lparr>calls := calls h @
                 [CallJavascriptFunction ''local_discovery.registrationFailed''
                    [StringValue ''Could not get token service'']]\<rparr>)
      | Some service \<Rightarrow>
          Inr (h\<lparr>confirm_api_call_flow :=
                   Some (TokenConfirmFlow (request_context (profile h)) service
                           (automated_claim_url (url d) token)),
                 calls := calls h @
                   [ConfirmFlow_Start
                      (TokenConfirmFlow (request_context (profile h)) service
                         (automated_claim_url (url d) token))]\<rparr>))"
  using assms(3)
  by (simp add: claim_token_present [OF assms(1,2)] LogRegisterErrorToWeb_def emit_def Let_def
        split: option.split)

theorem C6_token_path_confirm_or_failure_witness:
  "current_register_user_index (example_session None (- 1)) = kAccountIndexUseOAuth2
   \<and> OnPrivetRegisterClaimToken ''tok'' (GURL []) (example_session None (- 1)) =
       Inr ((example_session None (- 1))
              \<lparr>calls := calls (example_session None (- 1)) @
                 [CallJavascriptFunction ''local_discovery.registrationFailed''
                    [StringValue ''Could not get token service'']]\<rparr>)
   \<and> current_register_user_index (example_session (Some 5) (- 1)) = kAccountIndexUseOAuth2
   \<and> OnPrivetRegisterClaimToken ''tok'' (GURL []) (example_session (Some 5) (- 1)) =
       Inr ((example_session (Some 5) (- 1))
              \<lparr>confirm_api_call_flow :=
                 Some (TokenConfirmFlow 1 5 (GURL ''https://cloud.example/cp/confirm?token=tok'')),
               calls := calls (example_session (Some 5) (- 1)) @
                 [ConfirmFlow_Start
                    (TokenConfirmFlow 1 5 (GURL ''https://cloud.example/cp/confirm?token=tok''))]\<rparr>)"
proof -
  have none: "current_register_user_index (example_session None (- 1)) = kAccountIndexUseOAuth2"
    by (simp add: example_session_index kAccountIndexUseOAuth2_def)
  have some: "current_register_user_index (example_session (Some 5) (- 1)) = kAccountIndexUseOAuth2"
    by (simp add: example_session_index kAccountIndexUseOAuth2_def)
  show ?thesis
    using none some
      C6_token_path_confirm_or_failure [where token = "''tok''" and confirm_url = "GURL []",
          OF example_session_client example_session_registry none]
      C6_token_path_confirm_or_failure [where token = "''tok''" and confirm_url = "GURL []",
          OF example_session_client example_session_registry some]
    by (simp add: example_session_profile example_printer_url example_claim_url example_profile_def)
qed

text \<open>
  Claim C7. The list sent with \<^verbatim>\<open>requestUser\<close> is the spec's list: the signed-in account
  with the token-path sentinel, present when the name of the signed-in account is not empty,
  then the accounts of the resolver in its order, each with its position in the resolver's
  list, without those named like the signed-in account.
\<close>

theorem C7_annotated_account_list: 
  "calls (OnCloudPrintAccountsResolved accounts xsrf_token h) =
     calls h @ [CallJavascriptFunction ''local_discovery.requestUser''
                  [ListValue (spec_annotated_list (GetSyncAccount h) accounts)]]"
  by (simp add: OnCloudPrintAccountsResolved_def emit_def accounts_annotated_list_eq GetSyncAccount_def)

theorem C7_annotated_account_list_witness:
  "calls (OnCloudPrintAccountsResolved [''b@x'', ''a@x'', ''c@x''] ''xsrf-0'' (example_start None)) =
     calls (example_start None) @
       [CallJavascriptFunction ''local_discovery.requestUser''
          [ListValue [ListValue [IntegerValue (- 1), StringValue ''a@x''],
                      ListValue [IntegerValue 0, StringValue ''b@x''],
                      ListValue [IntegerValue 2, StringValue ''c@x'']]]]"
  using C7_annotated_account_list [of "[''b@x'', ''a@x'', ''c@x'']" "''xsrf-0''" "example_start None"]
  by (simp add: spec_annotated_list_def GetSyncAccount_def example_start_def HandleStart_def
        LocalDiscoveryUIHandler_def emit_def example_profile_def enumerate_eq_zip upt_rec)

subsection \<open>The info operation\<close>

text \<open>
  Claim C8. The answer of an info operation changes the handler by its calls only: when the
  HTTP status is OK and a payload came, the one call \<^verbatim>\<open>renderInfo\<close> with the payload; in
  every other case the info failure ``HTTP error'' with the status to the page and to the
  log, and no payload.
\<close>

theorem C8_info_forwarded_iff_ok_with_payload:
  "OnPrivetInfoDone http_code json_value h =
     h\<lparr>calls := calls h @
       (if http_code = HTTP_OK \<and> json_value \<noteq> None
        then [CallJavascriptFunction ''local_discovery.renderInfo'' [DictionaryValue (the json_value)]]
        else [CallJavascriptFunction ''local_discovery.infoFailed''
                [StringValue (''HTTP error '' @ StringPrintf_d http_code)],
              LOG_ERROR (''HTTP error '' @ StringPrintf_d http_code)])\<rparr>"
  by (simp add: OnPrivetInfoDone_def LogInfoErrorToWeb_def emit_def)

theorem C8_info_forwarded_iff_ok_with_payload_witness:
  "OnPrivetInfoDone 200 (Some [(''name'', StringValue ''printer-1'')]) (example_start None) =
     (example_start None)\<lparr>calls := calls (example_start None) @
        [CallJavascriptFunction ''local_discovery.renderInfo''
           [DictionaryValue [(''name'', StringValue ''printer-1'')]]]\<rparr>
   \<and> OnPrivetInfoDone 404 (Some [(''name'', StringValue ''printer-1'')]) (example_start None) =
     (example_start None)\<lparr>calls := calls (example_start None) @
        [CallJavascriptFunction ''local_discovery.infoFailed'' [StringValue ''HTTP error 404''],
         LOG_ERROR ''HTTP error 404'']\<rparr>
   \<and> OnPrivetInfoDone 200 None (example_start None) =
     (example_start None)\<lparr>calls := calls (example_start None) @
        [CallJavascriptFunction ''local_discovery.infoFailed'' [StringValue ''HTTP error 200''],
         LOG_ERROR ''HTTP error 200'']\<rparr>"
  using C8_info_forwarded_iff_ok_with_payload [of 200 "Some [(''name'', StringValue ''printer-1'')]" "example_start None"]
        C8_info_forwarded_iff_ok_with_payload [of 404 "Some [(''name'', StringValue ''printer-1'')]" "example_start None"]
        C8_info_forwarded_iff_ok_with_payload [of 200 None "example_start None"]
  by (simp add: HTTP_OK_def StringPrintf_d_def decimal.simps)

subsection \<open>The visibility counter\<close>

text \<open>
  Claim C9. The counter is meant to be the number of visible handlers, and \<^verbatim>\<open>GetHasVisible\<close>
  to be true exactly when there is one. \<^verbatim>\<open>SetIsVisible\<close> keeps this for a handler whose flag
  started at false, as the default constructor sets it. The constructor that takes a lister
  does not initialise the flag. For a handler made by a factory with that constructor, in a
  run where the flag reads as true: after creation the counter is 0 with one handler
  flagged visible; a visibility message with true changes nothing, so the counter stays 0
  and \<^verbatim>\<open>GetHasVisible\<close> is false while the page is visible; the destruction of the handler
  takes the counter to -1, and \<^verbatim>\<open>GetHasVisible\<close> is true with no handler left.
\<close>

theorem C9_uninitialised_flag_breaks_counter:
  "g_num_visible (run_process [SetFactory (Some example_factory), Create (example_profile None) 0]
                    initial_process) = 0
   \<and> num_visible (handlers (run_process
         [SetFactory (Some example_factory), Create (example_profile None) 0]
         initial_process)) = 1
   \<and> g_num_visible (run_process
         [SetFactory (Some example_factory), Create (example_profile None) 0,
          IsVisible 0 [BooleanValue True]] initial_process) = 0
   \<and> GetHasVisible (g_num_visible (run_process
         [SetFactory (Some example_factory), Create (example_profile None) 0,
          IsVisible 0 [BooleanValue True]] initial_process)) = False
   \<and> num_visible (handlers (run_process
         [SetFactory (Some example_factory), Create (example_profile None) 0,
          IsVisible 0 [BooleanValue True]] initial_process)) = 1
   \<and> g_num_visible (run_process
         [SetFactory (Some example_factory), Create (example_profile None) 0,
          IsVisible 0 [BooleanValue True], Destroy 0] initial_process) = - 1
   \<and> GetHasVisible (g_num_visible (run_process
         [SetFactory (Some example_factory), Create (example_profile None) 0,
          IsVisible 0 [BooleanValue True], Destroy 0] initial_process)) = True
   \<and> num_visible (handlers (run_process
         [SetFactory (Some example_factory), Create (example_profile None) 0,
          IsVisible 0 [BooleanValue True], Destroy 0] initial_process)) = 0"
  by (simp add: initial_process_def example_factory_def LocalDiscoveryUIHandler_lister_def
        live_def HandleIsVisible_def SetIsVisible_def destroy_def GetHasVisible_def
        num_visible_def)

subsection \<open>Lookups that insert\<close>

text \<open>
  Claim C10. For a device name that is not in the registry, an info request, a choose-account
  request for that device, a read of the cloud print base URL, and a register request (which
  reads that URL) each leave a default description under that name in the registry, and
  make no call to the page: an info or choose-account request makes the one call that
  starts the resolution, the register request the one call that starts the Account
  Resolver, the read of the URL none.
\<close>

theorem C10_lookup_inserts_default_description:
  assumes "device_descriptions h name = None" and "privet_http_factory h"
  shows "(case HandleInfoRequested [StringValue name] h of
            Inl c \<Rightarrow> False
          | Inr h' \<Rightarrow>
              device_descriptions h' name = Some default_DeviceDescription
              \<and> calls h' = calls h @
                  [Resolution_Start (CreatePrivetHTTP name (address default_DeviceDescription) StartInfoHTTP_cb)])
       \<and> (case HandleChooseUser [IntegerValue i, StringValue user] (h\<lparr>current_register_device := name\<rparr>) of
            Inl c \<Rightarrow> False
          | Inr h' \<Rightarrow>
              device_descriptions h' name = Some default_DeviceDescription
              \<and> calls h' = calls h @
                  [Resolution_Start (CreatePrivetHTTP name (address default_DeviceDescription)
                                       (StartRegisterHTTP_cb user))])
       \<and> device_descriptions (snd (GetCloudPrintBaseUrl name h)) name = Some default_DeviceDescription
       \<and> calls (snd (GetCloudPrintBaseUrl name h)) = calls h
       \<and> device_descriptions (HandleRegisterDevice [StringValue name] h) name = Some default_DeviceDescription
       \<and> calls (HandleRegisterDevice [StringValue name] h) = calls h @
            [AccountManager_Start (CloudPrintAccountManager (request_context (profile h))
                (url default_DeviceDescription) 0 OnCloudPrintAccountsResolved_cb)]"
  using assms
  by (simp add: HandleInfoRequested_def HandleChooseUser_def HandleRegisterDevice_def
        GetCloudPrintBaseUrl_def map_index_def emit_def Let_def)

theorem C10_lookup_inserts_default_description_witness:
  "device_descriptions (example_start None) ''ghost'' = None
   \<and> privet_http_factory (example_start None)
   \<and> (case HandleInfoRequested [StringValue ''ghost''] (example_start None) of
         Inl c \<Rightarrow> False
       | Inr h' \<Rightarrow>
           device_descriptions h' ''ghost'' = Some default_DeviceDescription
           \<and> calls h' = calls (example_start None) @
                 [Resolution_Start (CreatePrivetHTTP ''ghost'' \<lparr>host = [], port = 0\<rparr> StartInfoHTTP_cb)])
   \<and> device_descriptions (HandleRegisterDevice [StringValue ''ghost''] (example_start None)) ''ghost''
       = Some default_DeviceDescription"
proof -
  have absent: "device_descriptions (example_start None) ''ghost'' = None"
    by (simp add: example_start_def HandleStart_def LocalDiscoveryUIHandler_def emit_def)
  have factory: "privet_http_factory (example_start None)"
    by (simp add: example_start_def HandleStart_def LocalDiscoveryUIHandler_def emit_def)
  show ?thesis
    using absent factory C10_lookup_inserts_default_description [OF absent factory, where i = 0 and user = "[]"]
    by (simp add: default_DeviceDescription_def cong: sum.case_cong)
qed

end
